theory Spec2Isabelle
  imports Complex_Main
begin

section \<open>Values, errors and the simulated world\<close>

text \<open>
  Agent state and attributes are open Python dictionaries from strings to values. The
  values that occur in the configurations of the test-suite are integers, booleans,
  strings and \<open>None\<close>. Python compares a boolean with an integer numerically
  (\<open>False == 0\<close> holds), which \<open>py_eq\<close> follows.
\<close>

datatype pyval = PInt int | PBool bool | PStr string | PNone

fun py_num :: "pyval \<Rightarrow> int option" where
  "py_num (PInt i) = Some i"
| "py_num (PBool b) = Some (if b then 1 else 0)"
| "py_num (PStr s) = None"
| "py_num PNone = None"

definition py_eq :: "pyval \<Rightarrow> pyval \<Rightarrow> bool" where
  "py_eq x y =
     (case py_num x of
        Some i \<Rightarrow> (case py_num y of Some j \<Rightarrow> i = j | None \<Rightarrow> False)
      | None \<Rightarrow> (case py_num y of Some j \<Rightarrow> False | None \<Rightarrow> x = y))"

text \<open>
  The exceptions a call can end with: a missing dictionary key, a missing row of the
  process-wide array, a missing attribute of the environment.
\<close>

datatype error = KeyError | LookupError | AttributeError

text \<open>
  An agent object of class \<open>BassModel\<close>: the two dictionaries of the base class and the
  two probabilities its constructor copies from the environment. A float is the real
  number it stands for, which is exact for the comparisons the code makes; the one
  product the code computes is rounded by Python and is treated separately below.
\<close>

record agent =
  state :: "string \<rightharpoonup> pyval"
  attrs :: "string \<rightharpoonup> pyval"
  innovation_prob :: real
  imitation_prob :: real

text \<open>
  Everything a call of an agent method can read or write: the environment with its
  topology (the neighbours of each node), its agents (one object per node identifier,
  so \<open>self.id\<close> is the key of the object), its clock and its two settings; the
  module-level \<open>sentimentCorrelationNodeArray\<close>; and the state of the module-level
  random generator, a fixed sequence of draws with the position of the next one.

  Modelled from the spec: \<open>sentimentCorrelationNodeArray\<close> is imported from the package
  and not defined in the sources at hand; the spec calls it a global mutable array keyed
  by agent id and tick. It is modelled as rows indexed by agent id, each row a dictionary
  from ticks to integers; subscripting a row that does not exist raises.
\<close>

record 'id world =
  topology :: "'id \<Rightarrow> 'id list"
  agents :: "'id \<rightharpoonup> agent"
  now :: nat
  env_innovation_prob :: "real option"
  env_imitation_prob :: "real option"
  sentimentCorrelationNodeArray :: "'id \<rightharpoonup> (nat \<rightharpoonup> int)"
  rng :: "nat \<Rightarrow> real"
  rng_pos :: nat

text \<open>
  A method call returns the exception it ended with, if any, together with the world as
  it is when the call ends: Python does not undo the writes made before a raise.
\<close>

type_synonym 'id outcome = "error option \<times> 'id world"

definition then_do :: "'id outcome \<Rightarrow> ('id world \<Rightarrow> 'id outcome) \<Rightarrow> 'id outcome" where
  "then_do r f = (case r of (Some e, w) \<Rightarrow> (Some e, w) | (None, w) \<Rightarrow> f w)"

text \<open>\<open>random.random()\<close>: the next draw, and the generator advanced by one.\<close>

definition random_random :: "'id world \<Rightarrow> real \<times> 'id world" where
  "random_random w = (rng w (rng_pos w), w\<lparr>rng_pos := Suc (rng_pos w)\<rparr>)"

definition get_state :: "'id \<Rightarrow> string \<Rightarrow> 'id world \<Rightarrow> pyval option" where
  "get_state self k w = (case agents w self of None \<Rightarrow> None | Some a \<Rightarrow> state a k)"

definition get_attr :: "'id \<Rightarrow> string \<Rightarrow> 'id world \<Rightarrow> pyval option" where
  "get_attr self k w = (case agents w self of None \<Rightarrow> None | Some a \<Rightarrow> attrs a k)"

definition set_state :: "'id \<Rightarrow> string \<Rightarrow> pyval \<Rightarrow> 'id world \<Rightarrow> 'id world" where
  "set_state self k v w =
     (case agents w self of
        None \<Rightarrow> w
      | Some a \<Rightarrow> w\<lparr>agents := (agents w)(self \<mapsto> a\<lparr>state := (state a)(k \<mapsto> v)\<rparr>)\<rparr>)"

definition set_attr :: "'id \<Rightarrow> string \<Rightarrow> pyval \<Rightarrow> 'id world \<Rightarrow> 'id world" where
  "set_attr self k v w =
     (case agents w self of
        None \<Rightarrow> w
      | Some a \<Rightarrow> w\<lparr>agents := (agents w)(self \<mapsto> a\<lparr>attrs := (attrs a)(k \<mapsto> v)\<rparr>)\<rparr>)"

text \<open>\<open>sentimentCorrelationNodeArray[i][t]\<close>, read and written.\<close>

definition array_entry :: "'id world \<Rightarrow> 'id \<Rightarrow> nat \<Rightarrow> int option" where
  "array_entry w i t =
     (case sentimentCorrelationNodeArray w i of None \<Rightarrow> None | Some row \<Rightarrow> row t)"

definition array_set :: "'id \<Rightarrow> nat \<Rightarrow> int \<Rightarrow> 'id world \<Rightarrow> 'id outcome" where
  "array_set i t v w =
     (case sentimentCorrelationNodeArray w i of
        None \<Rightarrow> (Some LookupError, w)
      | Some row \<Rightarrow>
          (None, w\<lparr>sentimentCorrelationNodeArray :=
                     (sentimentCorrelationNodeArray w)(i \<mapsto> row(t \<mapsto> v))\<rparr>))"

text \<open>
  Modelled from the spec: \<open>get_neighboring_agents\<close> is inherited from the base class,
  which is not in the sources at hand. By the spec it returns the agents adjacent to this
  agent in the topology whose \<open>state['id']\<close> equals \<open>state_id\<close>. The agents are given
  by their identifiers.
\<close>

definition get_neighboring_agents :: "'id \<Rightarrow> pyval \<Rightarrow> 'id world \<Rightarrow> 'id list" where
  "get_neighboring_agents self state_id w =
     filter (\<lambda>j. case get_state j ''id'' w of None \<Rightarrow> False | Some v \<Rightarrow> py_eq v state_id)
       (topology w self)"

section \<open>The class BassModel\<close>

text \<open>
  The two statements both branches of \<open>behaviour\<close> use to adopt:
  \<open>self.state['id'] = 1\<close> and \<open>sentimentCorrelationNodeArray[self.id][self.env.now] = 1\<close>.
\<close>

definition adopt :: "'id \<Rightarrow> 'id world \<Rightarrow> 'id outcome" where
  "adopt self w = array_set self (now w) 1 (set_state self ''id'' (PInt 1) w)"

text \<open>\<open>self.attrs['status'] = self.state['id']\<close>\<close>

definition copy_status :: "'id \<Rightarrow> 'id world \<Rightarrow> 'id outcome" where
  "copy_status self w =
     (case get_state self ''id'' w of
        None \<Rightarrow> (Some KeyError, w)
      | Some v \<Rightarrow> (None, set_attr self ''status'' v w))"

text \<open>
  The body of the first \<open>if\<close> of \<open>behaviour\<close> (outside effects), entered when the first
  draw is below \<open>innovation_prob\<close>; it ends with \<open>return\<close>.
\<close>

definition innovation_effect :: "'id \<Rightarrow> 'id world \<Rightarrow> 'id outcome" where
  "innovation_effect self w =
     (case get_state self ''id'' w of
        None \<Rightarrow> (Some KeyError, w)
      | Some v \<Rightarrow>
          if py_eq v (PInt 0) then then_do (adopt self w) (copy_status self)
          else copy_status self w)"

text \<open>
  The rest of \<open>behaviour\<close> (imitation effects), reached when the first draw fails.
  Python rounds the product \<open>self.imitation_prob*num_neighbors_aware\<close> of a float and an
  integer to a float. The rounded product is the parameter \<open>float_times\<close>, of which nothing is
  assumed: what is proved holds however the product is rounded.
\<close>

definition imitation_effect ::
  "(real \<Rightarrow> nat \<Rightarrow> real) \<Rightarrow> 'id \<Rightarrow> real \<Rightarrow> 'id world \<Rightarrow> 'id outcome" where
  "imitation_effect float_times self q w =
     (case get_state self ''id'' w of
        None \<Rightarrow> (Some KeyError, w)
      | Some v \<Rightarrow>
          if py_eq v (PInt 0) then
            (let num_neighbors_aware = length (get_neighboring_agents self (PInt 1) w);
                 (r, w1) = random_random w
             in if r < float_times q num_neighbors_aware
                then then_do (adopt self w1) (copy_status self)
                else copy_status self w1)
          else (None, w))"

text \<open>
  \<open>behaviour\<close>. A method is called on an existing object; the first case only makes the
  function total.
\<close>

definition behaviour :: "(real \<Rightarrow> nat \<Rightarrow> real) \<Rightarrow> 'id \<Rightarrow> 'id world \<Rightarrow> 'id outcome" where
  "behaviour float_times self w =
     (case agents w self of
        None \<Rightarrow> (Some AttributeError, w)
      | Some a \<Rightarrow>
          (let (r, w1) = random_random w
           in if r < innovation_prob a then innovation_effect self w1
              else imitation_effect float_times self (imitation_prob a) w1))"

text \<open>
  \<open>step\<close> calls \<open>behaviour\<close> and then the \<open>step\<close> of the base class, which is not in the
  sources at hand and is a parameter here. An exception in \<open>behaviour\<close> ends the call.
\<close>

definition step ::
  "('id \<Rightarrow> nat \<Rightarrow> 'id world \<Rightarrow> 'id outcome) \<Rightarrow> (real \<Rightarrow> nat \<Rightarrow> real) \<Rightarrow>
     'id \<Rightarrow> nat \<Rightarrow> 'id world \<Rightarrow> 'id outcome" where
  "step base_step float_times self now_arg w =
     then_do (behaviour float_times self w) (base_step self now_arg)"

text \<open>
  The statements of the constructor after the call of the base constructor:
  \<open>self.innovation_prob = environment.innovation_prob\<close>,
  \<open>self.imitation_prob = environment.imitation_prob\<close> and
  \<open>sentimentCorrelationNodeArray[self.id][self.env.now] = 0\<close>. A setting the environment
  does not have raises, after the assignments before it have been made. The object under
  construction is the one the base constructor has bound to \<open>agent_id\<close>; when there is
  none, \<open>self.id\<close> is not that identifier and the call ends in an exception with nothing
  in the world written.
\<close>

definition init_settings :: "'id \<Rightarrow> 'id world \<Rightarrow> 'id outcome" where
  "init_settings agent_id w =
     (case agents w agent_id of
        None \<Rightarrow> (Some AttributeError, w)
      | Some a \<Rightarrow>
          (case env_innovation_prob w of
             None \<Rightarrow> (Some AttributeError, w)
           | Some p \<Rightarrow>
               (case env_imitation_prob w of
                  None \<Rightarrow>
                    (Some AttributeError,
                     w\<lparr>agents := (agents w)(agent_id \<mapsto> a\<lparr>innovation_prob := p\<rparr>)\<rparr>)
                | Some q \<Rightarrow>
                    array_set agent_id (now w) 0
                      (w\<lparr>agents := (agents w)(agent_id \<mapsto>
                          a\<lparr>innovation_prob := p, imitation_prob := q\<rparr>)\<rparr>))))"

text \<open>
  The constructor. It calls the constructor of the base class first, which is not in the
  sources at hand and is a parameter here, as the \<open>step\<close> of the base class is; an
  exception there ends the call.
\<close>

definition BassModel_init ::
  "('id \<Rightarrow> (string \<rightharpoonup> pyval) \<Rightarrow> 'id world \<Rightarrow> 'id outcome) \<Rightarrow>
     'id \<Rightarrow> (string \<rightharpoonup> pyval) \<Rightarrow> 'id world \<Rightarrow> 'id outcome" where
  "BassModel_init base_init agent_id st w =
     then_do (base_init agent_id st w) (init_settings agent_id)"

text \<open>
  A run calls \<open>behaviour\<close> many times, for one agent after another; the first exception
  ends it.
\<close>

fun behaviour_calls ::
  "(real \<Rightarrow> nat \<Rightarrow> real) \<Rightarrow> 'id list \<Rightarrow> 'id world \<Rightarrow> 'id outcome" where
  "behaviour_calls float_times [] w = (None, w)"
| "behaviour_calls float_times (j # js) w =
     then_do (behaviour float_times j w) (behaviour_calls float_times js)"

section \<open>What a call may write\<close>

text \<open>
  The reading of the frame rule of the spec under which an agent writes nothing but its
  own \<open>state\<close> and \<open>attrs\<close>: every other part of the world is the same after the call.
\<close>

definition only_own_state_attrs_written :: "'id \<Rightarrow> 'id world \<Rightarrow> 'id world \<Rightarrow> bool" where
  "only_own_state_attrs_written self w w' \<longleftrightarrow>
     topology w' = topology w \<and> now w' = now w \<and>
     env_innovation_prob w' = env_innovation_prob w \<and>
     env_imitation_prob w' = env_imitation_prob w \<and>
     sentimentCorrelationNodeArray w' = sentimentCorrelationNodeArray w \<and>
     rng w' = rng w \<and> rng_pos w' = rng_pos w \<and>
     (\<forall>j. j \<noteq> self \<longrightarrow> agents w' j = agents w j)"

text \<open>
  What the methods of \<open>BassModel\<close> keep to: the topology, the clock, the settings of the
  environment and every other agent are untouched; of the process-wide array only the
  entry of this agent at the current tick may change; the random generator only moves
  forward.
\<close>

definition writes_confined :: "'id \<Rightarrow> 'id world \<Rightarrow> 'id world \<Rightarrow> bool" where
  "writes_confined self w w' \<longleftrightarrow>
     topology w' = topology w \<and> now w' = now w \<and>
     env_innovation_prob w' = env_innovation_prob w \<and>
     env_imitation_prob w' = env_imitation_prob w \<and>
     rng w' = rng w \<and> rng_pos w \<le> rng_pos w' \<and>
     (\<forall>j. j \<noteq> self \<longrightarrow> agents w' j = agents w j) \<and>
     (\<forall>j. j \<noteq> self \<longrightarrow>
        sentimentCorrelationNodeArray w' j = sentimentCorrelationNodeArray w j) \<and>
     (\<forall>t. t \<noteq> now w \<longrightarrow> array_entry w' self t = array_entry w self t)"

section \<open>The History Store\<close>

text \<open>
  The store and the environment that fills it are not in the sources at hand; the
  test-suite only calls them. What follows is written from section 4.2 of the spec.
\<close>

text \<open>
  Modelled from the spec: the history record, conceptually
  \<open>(entity_id, tick, attribute, value, value_type)\<close>, where the entity is an agent or a
  sentinel for the attributes of the environment (\<open>'env'\<close> in the tests). The type tag
  is a function of the value (\<open>value_type\<close> below).
\<close>

datatype 'id entity = Agent 'id | Env

record 'id history_record =
  entity :: "'id entity"
  tick :: nat
  attribute :: string
  val :: pyval

text \<open>
  Modelled from the spec: the store itself, which the spec calls append-only with no
  compaction: the entries in the order they were written.
\<close>

type_synonym 'id history = "'id history_record list"

text \<open>
  Modelled from the spec: \<open>record(entity_id, tick, attribute, value)\<close> appends a new
  entry. It has no precondition: late and duplicate writes are permitted.
\<close>

definition record_entry ::
  "'id entity \<Rightarrow> nat \<Rightarrow> string \<Rightarrow> pyval \<Rightarrow> 'id history \<Rightarrow> 'id history" where
  "record_entry e t a v h = h @ [\<lparr>entity = e, tick = t, attribute = a, val = v\<rparr>]"

text \<open>Any number of later calls of \<open>record\<close>, in order.\<close>

fun record_entries :: "'id history_record list \<Rightarrow> 'id history \<Rightarrow> 'id history" where
  "record_entries [] h = h"
| "record_entries (r # rs) h =
     record_entries rs (record_entry (entity r) (tick r) (attribute r) (val r) h)"

text \<open>
  Modelled from the spec: each of the three positions of a query is a wildcard or an
  exact key. The attribute arrives as a Python value; a value that is not a string is the
  spec's example of a malformed query, which fails fast.
\<close>

datatype 'a pos = Wildcard | Exact 'a

datatype query_error = MalformedQuery

fun fits :: "'a pos \<Rightarrow> 'a \<Rightarrow> bool" where
  "fits Wildcard x = True"
| "fits (Exact y) x = (x = y)"

fun attribute_name :: "pyval pos \<Rightarrow> query_error + string pos" where
  "attribute_name Wildcard = Inr Wildcard"
| "attribute_name (Exact (PStr a)) = Inr (Exact a)"
| "attribute_name (Exact v) = Inl MalformedQuery"

definition matches ::
  "'id entity pos \<Rightarrow> nat pos \<Rightarrow> string pos \<Rightarrow> 'id history_record \<Rightarrow> bool" where
  "matches e t a r \<longleftrightarrow> fits e (entity r) \<and> fits t (tick r) \<and> fits a (attribute r)"

fun fully_specified :: "'a pos \<Rightarrow> 'b pos \<Rightarrow> 'c pos \<Rightarrow> bool" where
  "fully_specified (Exact e) (Exact t) (Exact a) = True"
| "fully_specified e t a = False"

text \<open>
  Modelled from the spec: \<open>query\<close>. An exactly specified triple returns a single value
  or "not found"; since an entry is never overwritten for its triple, the value is the
  one written first. A query with a wildcard returns the matching entries ordered by
  tick.
\<close>

datatype 'id answer = NotFound | Found pyval | Entries "'id history_record list"

definition query ::
  "'id history \<Rightarrow> 'id entity pos \<Rightarrow> nat pos \<Rightarrow> pyval pos \<Rightarrow> query_error + 'id answer" where
  "query h e t a =
     (case attribute_name a of
        Inl err \<Rightarrow> Inl err
      | Inr n \<Rightarrow>
          if fully_specified e t n then
            (case find (matches e t n) h of
               None \<Rightarrow> Inr NotFound
             | Some r \<Rightarrow> Inr (Found (val r)))
          else Inr (Entries (sort_key tick (filter (matches e t n) h))))"

text \<open>
  Modelled from the spec: \<open>to_tuples\<close>, the flattened export
  \<open>(entity_id, tick, attribute, value, value_type)\<close>, the type a string tag such as
  \<open>str\<close> or \<open>int\<close>.
\<close>

fun value_type :: "pyval \<Rightarrow> string" where
  "value_type (PInt i) = ''int''"
| "value_type (PBool b) = ''bool''"
| "value_type (PStr s) = ''str''"
| "value_type PNone = ''NoneType''"

definition to_tuples ::
  "'id history \<Rightarrow> ('id entity \<times> nat \<times> string \<times> pyval \<times> string) list" where
  "to_tuples h = map (\<lambda>r. (entity r, tick r, attribute r, val r, value_type (val r))) h"

text \<open>A triple has been recorded when the store holds an entry for it.\<close>

definition recorded :: "'id history \<Rightarrow> 'id entity \<Rightarrow> nat \<Rightarrow> string \<Rightarrow> bool" where
  "recorded h e t a \<longleftrightarrow> (\<exists>r \<in> set h. entity r = e \<and> tick r = t \<and> attribute r = a)"

section \<open>Sample worlds\<close>

text \<open>
  Two nodes joined by one edge, as in the topology of the tests. Agent 0 has not adopted,
  agent 1 has. Every draw of the generator is \<open>draw\<close>.
\<close>

definition bass_agent :: "int \<Rightarrow> agent" where
  "bass_agent i =
     \<lparr>state = [''id'' \<mapsto> PInt i], attrs = Map.empty,
      innovation_prob = 1 / 2, imitation_prob = 1 / 4\<rparr>"

definition bass_world :: "real \<Rightarrow> nat world" where
  "bass_world draw =
     \<lparr>topology = (\<lambda>i. if i = 0 then [1] else if i = 1 then [0] else []),
      agents = [0 \<mapsto> bass_agent 0, 1 \<mapsto> bass_agent 1],
      now = 0, env_innovation_prob = Some (1 / 2), env_imitation_prob = Some (1 / 4),
      sentimentCorrelationNodeArray = [0 \<mapsto> Map.empty, 1 \<mapsto> Map.empty],
      rng = (\<lambda>n. draw), rng_pos = 0\<rparr>"

text \<open>
  The product of a probability and a count where no rounding occurs, as for the 1/4 and
  the one neighbour of the sample world.
\<close>

definition exact_times :: "real \<Rightarrow> nat \<Rightarrow> real" where
  "exact_times q n = q * real n"

text \<open>
  A base class for the samples. Modelled from the spec: by the spec an agent is created
  with its identifier and its initial state; here its attributes start empty and the two
  probabilities, which only the constructor of \<open>BassModel\<close> sets, start as 0. The \<open>step\<close>
  of this base class does nothing.
\<close>

definition sample_base_init :: "nat \<Rightarrow> (string \<rightharpoonup> pyval) \<Rightarrow> nat world \<Rightarrow> nat outcome" where
  "sample_base_init agent_id st w =
     (None, w\<lparr>agents := (agents w)(agent_id \<mapsto>
        \<lparr>state = st, attrs = Map.empty, innovation_prob = 0, imitation_prob = 0\<rparr>)\<rparr>)"

definition sample_base_step :: "nat \<Rightarrow> nat \<Rightarrow> nat world \<Rightarrow> nat outcome" where
  "sample_base_step self now_arg w = (None, w)"

text \<open>
  The history of \<open>test_row_conversion\<close>: the attribute \<open>test\<close> of the environment is
  saved as \<open>test_value\<close> at tick 0 and as \<open>second_value\<close> at tick 1.
\<close>

definition history_tick0 :: "nat history" where
  "history_tick0 = record_entry Env 0 ''test'' (PStr ''test_value'') []"

definition second_save :: "nat history_record" where
  "second_save = \<lparr>entity = Env, tick = 1, attribute = ''test'', val = PStr ''second_value''\<rparr>"

section \<open>Properties of BassModel\<close>

lemmas bass_defs = behaviour_def innovation_effect_def imitation_effect_def adopt_def
  copy_status_def then_do_def array_set_def set_state_def set_attr_def get_state_def
  random_random_def Let_def

lemmas bass_world_defs = bass_world_def bass_agent_def exact_times_def

lemmas bass_init_defs = BassModel_init_def init_settings_def sample_base_init_def
  then_do_def array_set_def

lemma writes_confined_refl: "writes_confined self w w"
  by (simp add: writes_confined_def)

lemma writes_confined_trans:
  "writes_confined self w w1 \<Longrightarrow> writes_confined self w1 w2 \<Longrightarrow> writes_confined self w w2"
  by (auto simp: writes_confined_def)

text \<open>A frame that holds of a call and of what follows it holds of the two in sequence.\<close>

lemma writes_confined_then_do:
  assumes "writes_confined self w (snd r)"
    and "\<forall>w1. writes_confined self w1 (snd (f w1))"
  shows "writes_confined self w (snd (then_do r f))"
proof (cases r)
  case (Pair e w1)
  show ?thesis
  proof (cases e)
    case None
    have "writes_confined self w1 (snd (f w1))"
      using assms(2) by blast
    with assms(1) Pair have "writes_confined self w (snd (f w1))"
      by (auto intro: writes_confined_trans)
    with Pair None show ?thesis
      by (simp add: then_do_def)
  next
    case (Some err)
    with Pair assms(1) show ?thesis
      by (simp add: then_do_def)
  qed
qed

lemma writes_confined_behaviour: "writes_confined self w (snd (behaviour float_times self w))"
  by (auto simp: writes_confined_def bass_defs array_entry_def
      split: option.splits if_splits prod.splits)

lemma writes_confined_init_settings: "writes_confined self w (snd (init_settings self w))"
  by (auto simp: writes_confined_def init_settings_def array_set_def array_entry_def
      split: option.splits if_splits prod.splits)

lemma writes_confined_init:
  assumes "\<forall>w1. writes_confined self w1 (snd (base_init self st w1))"
  shows "writes_confined self w (snd (BassModel_init base_init self st w))"
  unfolding BassModel_init_def
proof (rule writes_confined_then_do)
  show "writes_confined self w (snd (base_init self st w))"
    using assms by blast
  show "\<forall>w1. writes_confined self w1 (snd (init_settings self w1))"
    by (simp add: writes_confined_init_settings)
qed

lemma writes_confined_step:
  assumes "\<forall>w1. writes_confined self w1 (snd (base_step self n w1))"
  shows "writes_confined self w (snd (step base_step float_times self n w))"
  unfolding step_def
  using writes_confined_behaviour assms by (rule writes_confined_then_do)

text \<open>
  A call of \<open>behaviour\<close>, by any agent \<open>j\<close>, keeps the \<open>state['id']\<close> of an agent that is
  not 0, and never produces a 0 that was not there.
\<close>

lemma behaviour_keeps_id:
  assumes "get_state self ''id'' w = Some v" and "\<not> py_eq v (PInt 0)"
  shows "get_state self ''id'' (snd (behaviour float_times j w)) = Some v"
  using assms
  by (auto simp: bass_defs py_eq_def split: option.splits if_splits prod.splits)

text \<open>
  Hence an agent that has adopted stays adopted through any sequence of calls, by itself
  or by others.
\<close>

lemma behaviour_calls_keep_id:
  assumes "get_state self ''id'' w = Some v" and "\<not> py_eq v (PInt 0)"
  shows "get_state self ''id'' (snd (behaviour_calls float_times js w)) = Some v"
  using assms
proof (induction js arbitrary: w)
  case Nil
  then show ?case by simp
next
  case (Cons j js)
  obtain e w1 where b: "behaviour float_times j w = (e, w1)"
    by (cases "behaviour float_times j w")
  have keep: "get_state self ''id'' w1 = Some v"
    using behaviour_keeps_id [OF Cons.prems, of float_times j] b by simp
  show ?case
  proof (cases e)
    case None
    with b show ?thesis
      using Cons.IH [OF keep Cons.prems(2)] by (simp add: then_do_def)
  next
    case (Some err)
    with b keep show ?thesis by (simp add: then_do_def)
  qed
qed

subsection \<open>Innovation and imitation exclude each other\<close>

text \<open>
  Claim C7. In one call of \<open>behaviour\<close> the innovation effect and the imitation effect
  exclude each other. When the first draw is below \<open>innovation_prob\<close> the call is the
  innovation block and nothing else: it makes no second draw, and neither its outcome nor
  the resulting \<open>state['id']\<close> depends on the imitation probability, on the topology or
  on the rounding of their product, which only the imitation block reads. When the first
  draw fails, the call is the imitation block and nothing else. So at most one of the two
  sets \<open>state['id']\<close> to 1.
\<close>

theorem behaviour_effects_exclusive:
  assumes "agents w self = Some a"
  shows "(rng w (rng_pos w) < innovation_prob a \<longrightarrow>
            behaviour float_times self w = innovation_effect self (snd (random_random w)) \<and>
            rng_pos (snd (behaviour float_times self w)) = Suc (rng_pos w) \<and>
            (\<forall>q g float_times'. fst (behaviour float_times' self
                       (w\<lparr>topology := g, agents := (agents w)(self \<mapsto> a\<lparr>imitation_prob := q\<rparr>)\<rparr>))
                     = fst (behaviour float_times self w) \<and>
                   get_state self ''id'' (snd (behaviour float_times' self
                       (w\<lparr>topology := g, agents := (agents w)(self \<mapsto> a\<lparr>imitation_prob := q\<rparr>)\<rparr>)))
                     = get_state self ''id'' (snd (behaviour float_times self w))))
       \<and> (\<not> rng w (rng_pos w) < innovation_prob a \<longrightarrow>
            behaviour float_times self w =
              imitation_effect float_times self (imitation_prob a) (snd (random_random w)))"
  using assms
  by (auto simp: bass_defs split: option.splits if_splits prod.splits)

text \<open>
  The two cases at the sample world: a first draw of 1/10 against an innovation
  probability of 1/2, after which agent 0 has adopted on one draw; and draws of 3/5,
  after which it has not, on two draws (3/5 is not below 1/4 times one aware neighbour).
\<close>

theorem behaviour_effects_exclusive_witness:
  "agents (bass_world (1 / 10)) 0 = Some (bass_agent 0) \<and>
   behaviour exact_times 0 (bass_world (1 / 10)) =
     innovation_effect 0 (snd (random_random (bass_world (1 / 10)))) \<and>
   rng_pos (snd (behaviour exact_times 0 (bass_world (1 / 10)))) = 1 \<and>
   get_state 0 ''id'' (snd (behaviour exact_times 0 (bass_world (1 / 10)))) = Some (PInt 1) \<and>
   agents (bass_world (3 / 5)) 0 = Some (bass_agent 0) \<and>
   behaviour exact_times 0 (bass_world (3 / 5)) =
     imitation_effect exact_times 0 (1 / 4) (snd (random_random (bass_world (3 / 5)))) \<and>
   rng_pos (snd (behaviour exact_times 0 (bass_world (3 / 5)))) = 2 \<and>
   get_state 0 ''id'' (snd (behaviour exact_times 0 (bass_world (3 / 5)))) = Some (PInt 0)"
proof -
  have v1: "get_state 0 ''id'' (snd (behaviour exact_times 0 (bass_world (1 / 10)))) = Some (PInt 1)"
    by (simp add: bass_defs bass_world_defs py_eq_def)
  have v2: "rng_pos (snd (behaviour exact_times 0 (bass_world (3 / 5)))) = 2"
    "get_state 0 ''id'' (snd (behaviour exact_times 0 (bass_world (3 / 5)))) = Some (PInt 0)"
    by (simp_all add: bass_defs bass_world_defs py_eq_def get_neighboring_agents_def)
  have a1: "agents (bass_world (1 / 10)) 0 = Some (bass_agent 0)"
    by (simp add: bass_world_def)
  have a2: "agents (bass_world (3 / 5)) 0 = Some (bass_agent 0)"
    by (simp add: bass_world_def)
  have d1: "rng (bass_world (1 / 10)) (rng_pos (bass_world (1 / 10))) < innovation_prob (bass_agent 0)"
    by (simp add: bass_world_defs)
  have d2: "\<not> rng (bass_world (3 / 5)) (rng_pos (bass_world (3 / 5))) < innovation_prob (bass_agent 0)"
    by (simp add: bass_world_defs)
  have i1: "behaviour exact_times 0 (bass_world (1 / 10)) =
               innovation_effect 0 (snd (random_random (bass_world (1 / 10)))) \<and>
            rng_pos (snd (behaviour exact_times 0 (bass_world (1 / 10)))) =
               Suc (rng_pos (bass_world (1 / 10)))"
    using behaviour_effects_exclusive [OF a1, of exact_times] d1 by blast
  have i2: "behaviour exact_times 0 (bass_world (3 / 5)) =
      imitation_effect exact_times 0 (imitation_prob (bass_agent 0))
        (snd (random_random (bass_world (3 / 5))))"
    using behaviour_effects_exclusive [OF a2, of exact_times] d2 by blast
  have p: "Suc (rng_pos (bass_world (1 / 10))) = 1" "imitation_prob (bass_agent 0) = 1 / 4"
    by (simp_all add: bass_world_defs)
  show ?thesis
    using a1 a2 i1 i2 v1 v2 unfolding p by blast
qed

subsection \<open>Adoption is absorbing\<close>

text \<open>
  Claim C10. If \<open>state['id']\<close> of an agent is not 0 when its \<open>behaviour\<close> is called, the
  call returns normally and leaves \<open>state['id']\<close> as it was; and whenever \<open>state['id']\<close>
  is 0 after a call it was the same 0 before: no path writes a 0.
\<close>

theorem behaviour_adopted_absorbing:
  assumes "get_state self ''id'' w = Some v"
  shows "(\<not> py_eq v (PInt 0) \<longrightarrow>
            fst (behaviour float_times self w) = None \<and>
            get_state self ''id'' (snd (behaviour float_times self w)) = Some v)
       \<and> (\<forall>v'. get_state self ''id'' (snd (behaviour float_times self w)) = Some v' \<and>
                py_eq v' (PInt 0) \<longrightarrow> v' = v)"
proof (intro conjI impI allI)
  assume nz: "\<not> py_eq v (PInt 0)"
  show "fst (behaviour float_times self w) = None"
    using assms nz
    by (auto simp: bass_defs split: option.splits if_splits prod.splits)
  show "get_state self ''id'' (snd (behaviour float_times self w)) = Some v"
    using assms nz by (rule behaviour_keeps_id)
next
  fix v'
  assume "get_state self ''id'' (snd (behaviour float_times self w)) = Some v' \<and> py_eq v' (PInt 0)"
  with assms show "v' = v"
    by (auto simp: bass_defs py_eq_def split: option.splits if_splits prod.splits)
qed

text \<open>Agent 1 of the sample world has adopted, and stays so.\<close>

theorem behaviour_adopted_absorbing_witness:
  "get_state 1 ''id'' (bass_world (1 / 10)) = Some (PInt 1) \<and> \<not> py_eq (PInt 1) (PInt 0) \<and>
   fst (behaviour exact_times 1 (bass_world (1 / 10))) = None \<and>
   get_state 1 ''id'' (snd (behaviour exact_times 1 (bass_world (1 / 10)))) = Some (PInt 1)"
proof -
  have h: "get_state 1 ''id'' (bass_world (1 / 10)) = Some (PInt 1)"
    by (simp add: get_state_def bass_world_defs)
  have nz: "\<not> py_eq (PInt 1) (PInt 0)"
    by (simp add: py_eq_def)
  show ?thesis
    using behaviour_adopted_absorbing [OF h, of exact_times] h nz by blast
qed

subsection \<open>The frame of a call\<close>

text \<open>
  Claim C6, as the spec states it, fails: \<open>behaviour\<close> and the constructor write the
  process-wide \<open>sentimentCorrelationNodeArray\<close>, which is no part of the agent. At the
  sample world the entry of agent 0 at tick 0 does not exist before the call; \<open>behaviour\<close>
  leaves a 1 there and the constructor, over the sample base class, a 0.
\<close>

theorem bass_writes_shared_array:
  "array_entry (bass_world (1 / 10)) 0 0 = None \<and>
   array_entry (snd (behaviour exact_times 0 (bass_world (1 / 10)))) 0 0 = Some 1 \<and>
   array_entry (snd (BassModel_init sample_base_init 0 [''id'' \<mapsto> PInt 0]
      (bass_world (1 / 10)))) 0 0 = Some 0 \<and>
   \<not> only_own_state_attrs_written 0 (bass_world (1 / 10))
        (snd (behaviour exact_times 0 (bass_world (1 / 10)))) \<and>
   \<not> only_own_state_attrs_written 0 (bass_world (1 / 10))
        (snd (BassModel_init sample_base_init 0 [''id'' \<mapsto> PInt 0] (bass_world (1 / 10))))"
proof -
  let ?b = "snd (behaviour exact_times 0 (bass_world (1 / 10)))"
  let ?i = "snd (BassModel_init sample_base_init 0 [''id'' \<mapsto> PInt 0] (bass_world (1 / 10)))"
  have e0: "array_entry (bass_world (1 / 10)) 0 0 = None"
    by (simp add: array_entry_def bass_world_def)
  have e1: "array_entry ?b 0 0 = Some 1"
    by (simp add: bass_defs bass_world_defs array_entry_def py_eq_def)
  have e2: "array_entry ?i 0 0 = Some 0"
    by (simp add: bass_init_defs bass_world_defs array_entry_def)
  have same: "only_own_state_attrs_written 0 (bass_world (1 / 10)) w' \<Longrightarrow>
      array_entry w' 0 0 = array_entry (bass_world (1 / 10)) 0 0" for w'
    by (simp add: only_own_state_attrs_written_def array_entry_def)
  show ?thesis
    using e0 e1 e2 same [of ?b] same [of ?i] by auto
qed

text \<open>
  Claim C6, amended. A call of \<open>behaviour\<close>, and the statements of the constructor after
  the call of the base constructor, leave the topology, the clock, the settings of the
  environment and every other agent unchanged; outside the agent they write only the
  entry of its own identifier at the current tick in the process-wide array, and they
  advance the random generator. The same holds of the whole constructor whenever it holds
  of the constructor of the base class, and of \<open>step\<close> whenever it holds of the \<open>step\<close> of
  the base class.
\<close>

theorem bass_writes_confined:
  "writes_confined self w (snd (behaviour float_times self w)) \<and>
   writes_confined self w (snd (init_settings self w)) \<and>
   ((\<forall>w1. writes_confined self w1 (snd (base_init self st w1))) \<longrightarrow>
      writes_confined self w (snd (BassModel_init base_init self st w))) \<and>
   ((\<forall>w1. writes_confined self w1 (snd (base_step self n w1))) \<longrightarrow>
      writes_confined self w (snd (step base_step float_times self n w)))"
  by (intro conjI impI writes_confined_behaviour writes_confined_init_settings
      writes_confined_init writes_confined_step)

text \<open>
  At the sample world, over the sample base class, whose constructor and \<open>step\<close> meet the
  two conditions. After the step of agent 0: agent 1, the topology and the row of agent 1
  are as before, and the entry of agent 0 holds the 1 that \<open>behaviour\<close> wrote. After the
  construction of agent 0: agent 1 and the topology are as before, and the entry of
  agent 0 holds the 0 that the constructor wrote.
\<close>

theorem bass_writes_confined_witness:
  "agents (snd (step sample_base_step exact_times 0 0 (bass_world (1 / 10)))) 1 =
     Some (bass_agent 1) \<and>
   topology (snd (step sample_base_step exact_times 0 0 (bass_world (1 / 10)))) =
     topology (bass_world (1 / 10)) \<and>
   array_entry (snd (step sample_base_step exact_times 0 0 (bass_world (1 / 10)))) 1 0 = None \<and>
   array_entry (snd (step sample_base_step exact_times 0 0 (bass_world (1 / 10)))) 0 0 = Some 1 \<and>
   agents (snd (BassModel_init sample_base_init 0 [''id'' \<mapsto> PInt 0] (bass_world (1 / 10)))) 1 =
     Some (bass_agent 1) \<and>
   topology (snd (BassModel_init sample_base_init 0 [''id'' \<mapsto> PInt 0] (bass_world (1 / 10)))) =
     topology (bass_world (1 / 10)) \<and>
   array_entry (snd (BassModel_init sample_base_init 0 [''id'' \<mapsto> PInt 0]
     (bass_world (1 / 10)))) 0 0 = Some 0"
proof -
  let ?w = "bass_world (1 / 10)"
  let ?st = "[''id'' \<mapsto> PInt 0]"
  let ?s = "snd (step sample_base_step exact_times 0 0 ?w)"
  let ?i = "snd (BassModel_init sample_base_init 0 ?st ?w)"
  have base_step: "\<forall>w1. writes_confined 0 w1 (snd (sample_base_step 0 0 w1))"
    by (simp add: sample_base_step_def writes_confined_refl)
  have base_init: "\<forall>w1. writes_confined 0 w1 (snd (sample_base_init 0 ?st w1))"
    by (simp add: sample_base_init_def writes_confined_def array_entry_def)
  note frame = bass_writes_confined [of 0 ?w exact_times sample_base_init ?st sample_base_step 0]
  have wc_step: "writes_confined 0 ?w ?s"
    using frame base_step by blast
  have wc_init: "writes_confined 0 ?w ?i"
    using frame base_init by blast
  have other: "agents ?w 1 = Some (bass_agent 1)"
    by (simp add: bass_world_def)
  have row: "array_entry ?w 1 0 = None"
    by (simp add: array_entry_def bass_world_def)
  have s1: "agents ?s 1 = Some (bass_agent 1)"
    using wc_step other by (simp add: writes_confined_def)
  have s2: "topology ?s = topology ?w"
    using wc_step by (simp add: writes_confined_def)
  have s3: "array_entry ?s 1 0 = None"
    using wc_step row by (simp add: writes_confined_def array_entry_def)
  have s4: "array_entry ?s 0 0 = Some 1"
    by (simp add: step_def sample_base_step_def bass_defs bass_world_defs array_entry_def
        py_eq_def)
  have i1: "agents ?i 1 = Some (bass_agent 1)"
    using wc_init other by (simp add: writes_confined_def)
  have i2: "topology ?i = topology ?w"
    using wc_init by (simp add: writes_confined_def)
  have i3: "array_entry ?i 0 0 = Some 0"
    by (simp add: bass_init_defs bass_world_defs array_entry_def)
  show ?thesis
    using s1 s2 s3 s4 i1 i2 i3 by blast
qed

section \<open>Properties of the History Store\<close>

lemma record_entries_append: "record_entries rs h = h @ rs"
  by (induction rs arbitrary: h) (simp_all add: record_entry_def)

lemma find_append_Some: "find P xs = Some x \<Longrightarrow> find P (xs @ ys) = Some x"
  by (induction xs) (auto split: if_splits)

lemma find_append_None: "find P xs = None \<Longrightarrow> find P (xs @ ys) = find P ys"
  by (induction xs) (auto split: if_splits)

lemma query_point:
  "query h (Exact e) (Exact t) (Exact (PStr a)) =
     (case find (matches (Exact e) (Exact t) (Exact a)) h of
        None \<Rightarrow> Inr NotFound
      | Some r \<Rightarrow> Inr (Found (val r)))"
  by (simp add: query_def)

lemma unrecorded_find:
  "\<not> recorded h e t a \<Longrightarrow> find (matches (Exact e) (Exact t) (Exact a)) h = None"
  by (auto simp: recorded_def find_None_iff matches_def)

text \<open>
  Claim C8. The store is append-only. A value that a point query returns for a triple is
  still returned after any number of later records, whatever their triples; a record for
  a triple not recorded before (the same entity and attribute at a later tick, say) is
  an entry of its own, which the point query for it returns; and the export after a
  record is the export before it with one tuple added at the end.
\<close>

theorem history_append_only:
  "(query h (Exact e) (Exact t) (Exact (PStr a)) = Inr (Found v) \<longrightarrow>
      query (record_entries rs h) (Exact e) (Exact t) (Exact (PStr a)) = Inr (Found v))
   \<and> (\<not> recorded h e' t' a' \<longrightarrow>
      query (record_entry e' t' a' v' h) (Exact e') (Exact t') (Exact (PStr a')) =
        Inr (Found v'))
   \<and> to_tuples (record_entry e' t' a' v' h) = to_tuples h @ [(e', t', a', v', value_type v')]"
proof (intro conjI impI)
  assume "query h (Exact e) (Exact t) (Exact (PStr a)) = Inr (Found v)"
  then obtain r where "find (matches (Exact e) (Exact t) (Exact a)) h = Some r" "val r = v"
    by (auto simp: query_point split: option.splits)
  then show "query (record_entries rs h) (Exact e) (Exact t) (Exact (PStr a)) = Inr (Found v)"
    by (simp add: query_point record_entries_append find_append_Some)
next
  assume "\<not> recorded h e' t' a'"
  then have "find (matches (Exact e') (Exact t') (Exact a')) h = None"
    by (rule unrecorded_find)
  then show "query (record_entry e' t' a' v' h) (Exact e') (Exact t') (Exact (PStr a')) =
      Inr (Found v')"
    by (simp add: query_point record_entry_def find_append_None matches_def)
next
  show "to_tuples (record_entry e' t' a' v' h) = to_tuples h @ [(e', t', a', v', value_type v')]"
    by (simp add: to_tuples_def record_entry_def)
qed

text \<open>
  The two saves of \<open>test_row_conversion\<close>: after the second, the query for tick 0 still
  returns \<open>test_value\<close> and the query for tick 1 returns \<open>second_value\<close>.
\<close>

theorem history_append_only_witness:
  "query history_tick0 (Exact Env) (Exact 0) (Exact (PStr ''test'')) =
     Inr (Found (PStr ''test_value'')) \<and>
   \<not> recorded history_tick0 Env 1 ''test'' \<and>
   query (record_entries [second_save] history_tick0) (Exact Env) (Exact 0)
     (Exact (PStr ''test'')) = Inr (Found (PStr ''test_value'')) \<and>
   query (record_entry Env 1 ''test'' (PStr ''second_value'') history_tick0) (Exact Env)
     (Exact 1) (Exact (PStr ''test'')) = Inr (Found (PStr ''second_value''))"
proof -
  have q0: "query history_tick0 (Exact Env) (Exact 0) (Exact (PStr ''test'')) =
      Inr (Found (PStr ''test_value''))"
    by (simp add: history_tick0_def record_entry_def query_def matches_def)
  have fresh: "\<not> recorded history_tick0 Env 1 ''test''"
    by (simp add: history_tick0_def record_entry_def recorded_def)
  note ao = history_append_only [of history_tick0 Env 0 "''test''" "PStr ''test_value''"
      "[second_save]" Env 1 "''test''" "PStr ''second_value''"]
  show ?thesis
    using ao q0 fresh by blast
qed

text \<open>
  Claim C9. A query for a fully specified triple that was never recorded returns
  "not found" and no error; and a query fails exactly when it is malformed, that is, when
  its attribute position holds a value that is not a string.
\<close>

theorem query_unrecorded_not_found:
  "(\<not> recorded h e t a \<longrightarrow> query h (Exact e) (Exact t) (Exact (PStr a)) = Inr NotFound)
   \<and> ((\<exists>err. query h qe qt qa = Inl err) \<longleftrightarrow> (\<exists>v. qa = Exact v \<and> (\<forall>s. v \<noteq> PStr s)))"
proof (intro conjI impI)
  assume "\<not> recorded h e t a"
  then have "find (matches (Exact e) (Exact t) (Exact a)) h = None"
    by (rule unrecorded_find)
  then show "query h (Exact e) (Exact t) (Exact (PStr a)) = Inr NotFound"
    by (simp add: query_point)
next
  show "(\<exists>err. query h qe qt qa = Inl err) \<longleftrightarrow> (\<exists>v. qa = Exact v \<and> (\<forall>s. v \<noteq> PStr s))"
  proof (cases qa)
    case Wildcard
    then show ?thesis by (simp add: query_def split: option.splits)
  next
    case (Exact v)
    then show ?thesis by (cases v) (simp_all add: query_def split: option.splits)
  qed
qed

text \<open>
  After the first save of \<open>test_row_conversion\<close> nothing is recorded for tick 2: the
  query answers "not found".
\<close>

theorem query_unrecorded_not_found_witness:
  "\<not> recorded history_tick0 Env 2 ''test'' \<and>
   query history_tick0 (Exact Env) (Exact 2) (Exact (PStr ''test'')) = Inr NotFound"
proof -
  have fresh: "\<not> recorded history_tick0 Env 2 ''test''"
    by (simp add: history_tick0_def record_entry_def recorded_def)
  show ?thesis
    using query_unrecorded_not_found [of history_tick0 Env 2 "''test''"] fresh by blast
qed

end
